theory Spec2Isabelle
  imports Complex_Main
begin

section \<open>Python values, dictionaries and exceptions\<close>

text \<open>
  The coordinator only ever inspects the truth value of what the device returns
  (\<^verbatim>\<open>x or y\<close>), so a value is \<^verbatim>\<open>None\<close>, a number (the battery percentage is an
  \<^verbatim>\<open>int\<close>, a temperature a \<^verbatim>\<open>float\<close>; both are falsy exactly at zero) or a dictionary
  (the holiday entry), kept as its list of items.
\<close>

datatype pyval = PNone | PNum rat | PDict "(string \<times> pyval) list"

type_synonym pydict = "string \<rightharpoonup> pyval"

fun truthy :: "pyval \<Rightarrow> bool" where
  "truthy PNone = False"
| "truthy (PNum n) = (n \<noteq> 0)"
| "truthy (PDict kvs) = (kvs \<noteq> [])"

definition py_or :: "pyval \<Rightarrow> pyval \<Rightarrow> pyval" where
  \<comment> \<open>\<^verbatim>\<open>x or y\<close>\<close>
  "py_or x y = (if truthy x then x else y)"

definition dict_get :: "pydict \<Rightarrow> string \<Rightarrow> pyval" where
  \<comment> \<open>\<^verbatim>\<open>d.get(k)\<close>: \<^verbatim>\<open>None\<close> for a missing key\<close>
  "dict_get d k = (case d k of None \<Rightarrow> PNone | Some v \<Rightarrow> v)"

text \<open>
  An exception is its class name together with the names of all its proper superclasses;
  an \<^verbatim>\<open>except C\<close> clause matches it when \<^verbatim>\<open>isinstance(ex, C)\<close>. The handlers of
  the coordinator are modelled with \<open>isinstance\<close> alone, in the order of the source, so
  they apply to every exception class a device operation may raise. The five exceptions
  named below are the ones the coordinator raises itself (\<^verbatim>\<open>ConfigEntryNotReady\<close>, with
  the superclasses Home Assistant gives it) and the ones used as device behaviour in the
  examples. \<^verbatim>\<open>InvalidByteValueError\<close> belongs to the external \<^verbatim>\<open>cometblue\<close> library, where it
  is a subclass of \<^verbatim>\<open>ValueError\<close>: a handler for \<^verbatim>\<open>ValueError\<close> catches it unless an
  earlier handler does.
\<close>

datatype exn = Exn (class_name: string) (bases: "string list")

definition isinstance :: "exn \<Rightarrow> string \<Rightarrow> bool" where
  "isinstance ex c = (c = class_name ex \<or> c \<in> set (bases ex))"

definition ConfigEntryNotReady :: exn where
  "ConfigEntryNotReady =
     Exn ''ConfigEntryNotReady''
       [''IntegrationError'', ''HomeAssistantError'', ''Exception'', ''BaseException'']"

definition InvalidByteValueError :: exn where
  \<comment> \<open>the \<^verbatim>\<open>cometblue\<close> library declares \<^verbatim>\<open>class InvalidByteValueError(ValueError)\<close>\<close>
  "InvalidByteValueError =
     Exn ''InvalidByteValueError'' [''ValueError'', ''Exception'', ''BaseException'']"

definition TimeoutError :: exn where
  "TimeoutError = Exn ''TimeoutError'' [''OSError'', ''Exception'', ''BaseException'']"

definition BleakError :: exn where
  "BleakError = Exn ''BleakError'' [''Exception'', ''BaseException'']"

definition ValueError :: exn where
  "ValueError = Exn ''ValueError'' [''Exception'', ''BaseException'']"

definition communication_error :: "exn \<Rightarrow> bool" where
  \<comment> \<open>\<^verbatim>\<open>except (InvalidByteValueError, TimeoutError, BleakError)\<close>\<close>
  "communication_error ex =
     (isinstance ex ''InvalidByteValueError'' \<or> isinstance ex ''TimeoutError''
      \<or> isinstance ex ''BleakError'')"

text \<open>What a coordinator method raises to its caller; the argument is the cause
  (\<^verbatim>\<open>raise ... from ex\<close>). \<open>Propagated\<close> is an exception no handler caught.\<close>

datatype raised =
    UpdateFailed exn
  | HomeAssistantError exn
  | ServiceValidationError exn
  | Propagated exn

section \<open>The device session and the coordinator\<close>

text \<open>
  The BLE client is external. One value of \<open>session\<close> says how the device behaves
  during one \<^verbatim>\<open>async with self.device:\<close> block: whether entering or leaving the block
  raises, the \<^verbatim>\<open>connected\<close> flag, and what each operation returns or raises
  (\<open>Inl\<close> is the exception raised).
\<close>

record session =
  aenter :: "exn option"
  connected :: bool
  get_temperature_async :: "exn + pydict"
  get_battery_async :: "exn + pyval"
  get_holiday_async :: "exn + pyval"
  command :: "string \<Rightarrow> (string \<times> pyval) list \<Rightarrow> exn + pyval"
  aexit :: "exn option"

text \<open>The calls made on the device and the log lines written, in order.\<close>

datatype event =
    Enter | Exit
  | GetTemperature | GetBattery | GetHoliday
  | Call string "(string \<times> pyval) list"
  | LogDebug | LogInfo exn | LogWarning exn
  | LogRetryCommand string exn

record coordinator =
  data :: pydict
  failed_update_count :: int

definition RETRY_COUNT :: nat where
  "RETRY_COUNT = 3"

definition async_with ::
  "session \<Rightarrow> 'l \<Rightarrow> (event list \<times> 'l \<times> (exn + 'a)) \<Rightarrow> event list \<times> 'l \<times> (exn + 'a)" where
  \<comment> \<open>\<^verbatim>\<open>async with self.device: body\<close>, started with the local state \<open>l\<close>: the body does
      not run when entering raises; leaving runs after the body on every path, and an
      exception raised on leaving replaces the body's outcome; leaving does not suppress
      an exception of the body. A block ends by raising (\<open>Inl\<close>) or by completing or
      returning (\<open>Inr\<close>).\<close>
  "async_with s l body =
     (case aenter s of
        Some ex \<Rightarrow> ([Enter], l, Inl ex)
      | None \<Rightarrow>
          (case body of (ev, l', r) \<Rightarrow>
             (case aexit s of
                Some ex \<Rightarrow> (Enter # ev @ [Exit], l', Inl ex)
              | None \<Rightarrow> (Enter # ev @ [Exit], l', r))))"

definition merge_temperatures :: "string list \<Rightarrow> pydict \<Rightarrow> pydict \<Rightarrow> pydict" where
  \<comment> \<open>\<^verbatim>\<open>{k: retrieved_temperatures.get(k) or self.data.get(k) for k in CONF_ALL_TEMPERATURES}\<close>;
      the list \<^verbatim>\<open>CONF_ALL_TEMPERATURES\<close> of \<^verbatim>\<open>const.py\<close> is a parameter.\<close>
  "merge_temperatures conf retrieved old =
     (\<lambda>k. if k \<in> set conf then Some (py_or (dict_get retrieved k) (dict_get old k)) else None)"

subsection \<open>The availability gate (both packages)\<close>

definition available :: "coordinator \<Rightarrow> bool \<Rightarrow> bool" where
  \<comment> \<open>\<^verbatim>\<open>CometBlueBluetoothEntity.available\<close>; the second argument is what
      \<^verbatim>\<open>bluetooth.async_address_present(hass, address, True)\<close> answers.\<close>
  "available c address_present = (failed_update_count c < int RETRY_COUNT \<and> address_present)"

section \<open>Package \<^verbatim>\<open>eurotronic_cometblue\<close>\<close>

subsection \<open>\<^verbatim>\<open>send_command\<close>\<close>

definition command_block ::
  "session \<Rightarrow> string \<Rightarrow> (string \<times> pyval) list \<Rightarrow> event list \<times> unit \<times> (exn + pyval)" where
  \<comment> \<open>the body of the \<^verbatim>\<open>async with\<close>: the connected check, then
      \<^verbatim>\<open>return await getattr(self.device, function)(**payload)\<close>\<close>
  "command_block s function payload =
     (if \<not> connected s then ([], (), Inl ConfigEntryNotReady)
      else ([Call function payload], (), command s function payload))"

function send_command_loop ::
  "(nat \<Rightarrow> session) \<Rightarrow> string \<Rightarrow> (string \<times> pyval) list \<Rightarrow> string \<Rightarrow> nat \<Rightarrow> event list
   \<Rightarrow> event list \<times> (raised + pyval)" where
  "send_command_loop dev function payload caller_entity_id retry_count tr =
     (if retry_count < RETRY_COUNT then
        (case async_with (dev retry_count) ()
                (command_block (dev retry_count) function payload) of
           (ev, _, Inr v) \<Rightarrow> (tr @ ev, Inr v)
         | (ev, _, Inl ex) \<Rightarrow>
             if communication_error ex then
               (if RETRY_COUNT \<le> retry_count + 1
                then (tr @ ev, Inl (HomeAssistantError ex))
                else send_command_loop dev function payload caller_entity_id (retry_count + 1)
                       (tr @ ev @ [LogRetryCommand caller_entity_id ex]))
             else if isinstance ex ''ValueError''
             then (tr @ ev, Inl (ServiceValidationError ex))
             else (tr @ ev, Inl (Propagated ex)))
      else (tr, Inr PNone))"
  by pat_completeness auto
termination
  by (relation "measure (\<lambda>(dev, function, payload, caller_entity_id, retry_count, tr).
        RETRY_COUNT - retry_count)") auto

definition send_command_eurotronic ::
  "(nat \<Rightarrow> session) \<Rightarrow> string \<Rightarrow> (string \<times> pyval) list \<Rightarrow> string
   \<Rightarrow> event list \<times> (raised + pyval)" where
  \<comment> \<open>\<open>dev n\<close> is the device's behaviour in the session opened after \<open>n\<close> failed ones\<close>
  "send_command_eurotronic dev function payload caller_entity_id =
     send_command_loop dev function payload caller_entity_id 0 [LogDebug]"

subsection \<open>\<^verbatim>\<open>_async_update_data\<close>\<close>

record poll_locals =
  retry_count :: nat
  retrieved_temperatures :: pydict
  battery :: pyval
  holiday :: pyval

definition optional_reads ::
  "session \<Rightarrow> poll_locals \<Rightarrow> event list \<times> poll_locals \<times> (exn + unit)" where
  \<comment> \<open>the body of the inner \<^verbatim>\<open>try\<close>: battery, then holiday\<close>
  "optional_reads s l =
     (case get_battery_async s of
        Inl ex \<Rightarrow> ([GetBattery], l, Inl ex)
      | Inr b \<Rightarrow>
          (case get_holiday_async s of
             Inl ex \<Rightarrow> ([GetBattery, GetHoliday], l\<lparr>battery := b\<rparr>, Inl ex)
           | Inr h \<Rightarrow> ([GetBattery, GetHoliday], l\<lparr>battery := b, holiday := h\<rparr>, Inr ())))"

definition poll_block ::
  "session \<Rightarrow> poll_locals \<Rightarrow> event list \<times> poll_locals \<times> (exn + unit)" where
  \<comment> \<open>the body of the \<^verbatim>\<open>async with\<close>; the inner handler catches
      \<^verbatim>\<open>InvalidByteValueError\<close> only and logs a warning\<close>
  "poll_block s l =
     (if \<not> connected s then ([], l, Inl ConfigEntryNotReady)
      else
        (case get_temperature_async s of
           Inl ex \<Rightarrow> ([GetTemperature], l, Inl ex)
         | Inr t \<Rightarrow>
             (case optional_reads s (l\<lparr>retrieved_temperatures := t\<rparr>) of
                (ev, l', Inr _) \<Rightarrow> (GetTemperature # ev, l', Inr ())
              | (ev, l', Inl ex) \<Rightarrow>
                  if isinstance ex ''InvalidByteValueError''
                  then (GetTemperature # ev @ [LogWarning ex], l', Inr ())
                  else (GetTemperature # ev, l', Inl ex))))"

text \<open>
  The \<^verbatim>\<open>while retry_count < RETRY_COUNT\<close> loop. Nothing bounds the number of its rounds
  (a round that raises nothing leaves \<^verbatim>\<open>retry_count\<close> as it is), so the model takes
  fuel: \<open>None\<close> says the loop is still running after \<open>fuel\<close> rounds. \<open>dev i\<close> is the
  device's behaviour in round \<open>i\<close>, and \<open>tr\<close> the events so far.
\<close>

fun poll_loop ::
  "nat \<Rightarrow> (nat \<Rightarrow> session) \<Rightarrow> nat \<Rightarrow> poll_locals \<Rightarrow> event list
   \<Rightarrow> (event list \<times> (raised + poll_locals)) option" where
  "poll_loop 0 dev i l tr =
     (if retry_count l < RETRY_COUNT then None else Some (tr, Inr l))"
| "poll_loop (Suc fuel) dev i l tr =
     (if retry_count l < RETRY_COUNT then
        (case async_with (dev i) l (poll_block (dev i) l) of
           (ev, l', Inr _) \<Rightarrow> poll_loop fuel dev (i + 1) l' (tr @ ev)
         | (ev, l', Inl ex) \<Rightarrow>
             if communication_error ex then
               (if RETRY_COUNT \<le> retry_count l' + 1
                then Some (tr @ ev, Inl (UpdateFailed ex))
                else poll_loop fuel dev (i + 1) (l'\<lparr>retry_count := retry_count l' + 1\<rparr>)
                       (tr @ ev @ [LogInfo ex]))
             else if isinstance ex ''Exception''
             then Some (tr @ ev, Inl (UpdateFailed ex))
             else Some (tr @ ev, Inl (Propagated ex)))
      else Some (tr, Inr l))"

definition merge_data :: "string list \<Rightarrow> pydict \<Rightarrow> poll_locals \<Rightarrow> pydict" where
  \<comment> \<open>the dictionary built after the loop; the unpacked comprehension comes last and
      overrides an earlier key of the same name\<close>
  "merge_data conf old l =
     [''battery'' \<mapsto> py_or (battery l) (dict_get old ''battery''),
      ''holiday'' \<mapsto> py_or (holiday l) (dict_get old ''holiday'')]
     ++ merge_temperatures conf (retrieved_temperatures l) old"

definition initial_locals :: poll_locals where
  "initial_locals =
     \<lparr>retry_count = 0, retrieved_temperatures = Map.empty, battery = PNum 0,
      holiday = PDict []\<rparr>"

definition async_update_data_eurotronic ::
  "nat \<Rightarrow> string list \<Rightarrow> (nat \<Rightarrow> session) \<Rightarrow> coordinator
   \<Rightarrow> (event list \<times> coordinator \<times> (raised + pydict)) option" where
  \<comment> \<open>the method never assigns to \<^verbatim>\<open>self\<close>: the coordinator comes back as it went in\<close>
  "async_update_data_eurotronic fuel conf dev c =
     (case poll_loop fuel dev 0 initial_locals [] of
        None \<Rightarrow> None
      | Some (tr, Inl r) \<Rightarrow> Some (tr, c, Inl r)
      | Some (tr, Inr l) \<Rightarrow> Some (tr @ [LogDebug], c, Inr (merge_data conf (data c) l)))"

section \<open>Package \<^verbatim>\<open>cometblue\<close>\<close>

subsection \<open>\<^verbatim>\<open>send_command\<close>\<close>

definition command_block_cometblue ::
  "session \<Rightarrow> string \<Rightarrow> (string \<times> pyval) list
   \<Rightarrow> event list \<times> pyval option \<times> (exn + unit)" where
  \<comment> \<open>the local state is the variable \<^verbatim>\<open>result\<close>, unbound until the call returns\<close>
  "command_block_cometblue s function payload =
     (if \<not> connected s then ([], None, Inl ConfigEntryNotReady)
      else
        (case command s function payload of
           Inl ex \<Rightarrow> ([Call function payload], None, Inl ex)
         | Inr v \<Rightarrow> ([Call function payload], Some v, Inr ())))"

definition send_command_cometblue ::
  "session \<Rightarrow> string \<Rightarrow> (string \<times> pyval) list \<Rightarrow> string \<Rightarrow> event list \<times> (raised + pyval)" where
  \<comment> \<open>no \<^verbatim>\<open>return\<close> statement: a call that raises nothing returns \<^verbatim>\<open>None\<close>\<close>
  "send_command_cometblue s function payload caller_entity_id =
     (case async_with s None (command_block_cometblue s function payload) of
        (ev, result, Inr _) \<Rightarrow> (LogDebug # ev, Inr PNone)
      | (ev, result, Inl ex) \<Rightarrow>
          if isinstance ex ''ValueError'' then (LogDebug # ev, Inl (ServiceValidationError ex))
          else if isinstance ex ''BleakError'' then (LogDebug # ev, Inl (HomeAssistantError ex))
          else if isinstance ex ''TimeoutError'' then (LogDebug # ev, Inl (HomeAssistantError ex))
          else (LogDebug # ev, Inl (Propagated ex)))"

subsection \<open>\<^verbatim>\<open>_async_update_data\<close>\<close>

definition update_block_cometblue ::
  "string list \<Rightarrow> session \<Rightarrow> coordinator
   \<Rightarrow> event list \<times> (coordinator \<times> pydict) \<times> (exn + unit)" where
  \<comment> \<open>the local state is \<^verbatim>\<open>self\<close> and the variable \<^verbatim>\<open>data\<close>, which starts empty\<close>
  "update_block_cometblue conf s c =
     (if \<not> connected s then ([], (c, Map.empty), Inl ConfigEntryNotReady)
      else
        (case get_temperature_async s of
           Inl ex \<Rightarrow> ([GetTemperature], (c, Map.empty), Inl ex)
         | Inr t \<Rightarrow>
             (case get_battery_async s of
                Inl ex \<Rightarrow> ([GetTemperature, GetBattery], (c, Map.empty), Inl ex)
              | Inr b \<Rightarrow>
                  (case get_holiday_async s of
                     Inl ex \<Rightarrow> ([GetTemperature, GetBattery, GetHoliday], (c, Map.empty), Inl ex)
                   | Inr h \<Rightarrow>
                       ([GetTemperature, GetBattery, GetHoliday],
                        (c\<lparr>failed_update_count := 0\<rparr>,
                         [''battery'' \<mapsto> b, ''holiday'' \<mapsto> h]
                         ++ merge_temperatures conf t (data c)),
                        Inr ())))))"

definition async_update_data_cometblue ::
  "string list \<Rightarrow> session \<Rightarrow> coordinator \<Rightarrow> event list \<times> coordinator \<times> (raised + pydict)" where
  "async_update_data_cometblue conf s c =
     (case async_with s (c, Map.empty) (update_block_cometblue conf s c) of
        (ev, (c', d), Inr _) \<Rightarrow> (ev @ [LogDebug], c', Inr d)
      | (ev, (c', d), Inl ex) \<Rightarrow>
          if isinstance ex ''InvalidByteValueError'' then
            (if failed_update_count c' < int RETRY_COUNT \<and> data c' \<noteq> Map.empty
             then (ev, c'\<lparr>failed_update_count := failed_update_count c' + 1\<rparr>, Inr (data c'))
             else (ev, c', Inl (UpdateFailed ex)))
          else if isinstance ex ''Exception''
          then (ev, c'\<lparr>failed_update_count := failed_update_count c' + 1\<rparr>, Inl (UpdateFailed ex))
          else (ev, c', Inl (Propagated ex)))"



section \<open>Device scripts\<close>

text \<open>
  Inputs for the statements below: a session in which every call succeeds, sessions in
  which one read raises, and the device that fails its temperature read in its first
  \<open>k\<close> sessions and succeeds in every later one.
\<close>

definition healthy_session :: session where
  "healthy_session =
     \<lparr>aenter = None, connected = True,
      get_temperature_async = Inr [''eco'' \<mapsto> PNum 16, ''comfort'' \<mapsto> PNum 20],
      get_battery_async = Inr (PNum 80),
      get_holiday_async = Inr (PDict [(''temperature'', PNum 12)]),
      command = (\<lambda>function payload. Inr PNone),
      aexit = None\<rparr>"

definition timeout_session :: session where
  "timeout_session = healthy_session\<lparr>get_temperature_async := Inl TimeoutError\<rparr>"

definition battery_malformed_session :: session where
  "battery_malformed_session =
     healthy_session\<lparr>get_battery_async := Inl InvalidByteValueError\<rparr>"

definition holiday_malformed_session :: session where
  "holiday_malformed_session =
     healthy_session\<lparr>get_holiday_async := Inl InvalidByteValueError\<rparr>"

definition fails_then_succeeds :: "nat \<Rightarrow> nat \<Rightarrow> session" where
  "fails_then_succeeds k i = (if i < k then timeout_session else healthy_session)"

definition session_opens :: "session \<Rightarrow> bool" where
  \<comment> \<open>the block is entered and left without an exception and the device is connected\<close>
  "session_opens s = (aenter s = None \<and> connected s \<and> aexit s = None)"

definition bleak_command_session :: session where
  "bleak_command_session = healthy_session\<lparr>command := (\<lambda>function payload. Inl BleakError)\<rparr>"

definition answering_session :: session where
  "answering_session = healthy_session\<lparr>command := (\<lambda>function payload. Inr (PNum 21))\<rparr>"

definition invalid_payload_session :: session where
  "invalid_payload_session = healthy_session\<lparr>command := (\<lambda>function payload. Inl ValueError)\<rparr>"

definition disconnected_session :: session where
  "disconnected_session = healthy_session\<lparr>connected := False\<rparr>"



definition stored_coordinator :: coordinator where
  \<comment> \<open>a coordinator with data of an earlier cycle and three counted failures\<close>
  "stored_coordinator =
     \<lparr>data = [''battery'' \<mapsto> PNum 75, ''holiday'' \<mapsto> PDict [(''temperature'', PNum 12)],
              ''eco'' \<mapsto> PNum 16],
      failed_update_count = 3\<rparr>"

section \<open>Properties\<close>

text \<open>
  C5 (availability gate). For every value of the failure counter and every answer of the
  presence check, \<open>available\<close> is true iff the counter is below 3 and the device is
  present; it is false exactly when the counter is at least 3 or the device is absent.
  The property only reads the coordinator: its result is a boolean and nothing else.
\<close>

theorem available_iff:
  "(available c present \<longleftrightarrow> failed_update_count c < 3 \<and> present)
   \<and> (\<not> available c present \<longleftrightarrow> 3 \<le> failed_update_count c \<or> \<not> present)"
  by (auto simp: available_def RETRY_COUNT_def)

theorem available_iff_witness:
  "available \<lparr>data = Map.empty, failed_update_count = 2\<rparr> True
   \<and> \<not> available \<lparr>data = Map.empty, failed_update_count = 3\<rparr> True
   \<and> \<not> available \<lparr>data = Map.empty, failed_update_count = 0\<rparr> False"
  using available_iff [of "\<lparr>data = Map.empty, failed_update_count = 2\<rparr>" True]
    available_iff [of "\<lparr>data = Map.empty, failed_update_count = 3\<rparr>" True]
    available_iff [of "\<lparr>data = Map.empty, failed_update_count = 0\<rparr>" False]
  by simp

subsection \<open>The polling loop of \<^verbatim>\<open>eurotronic_cometblue\<close>\<close>

lemma isinstance_simps:
  "isinstance (Exn c bs) d = (d = c \<or> d \<in> set bs)"
  by (simp add: isinstance_def)

lemma communication_error_TimeoutError: "communication_error TimeoutError"
  by (simp add: communication_error_def TimeoutError_def isinstance_simps)

lemma optional_reads_retry_count:
  "optional_reads s l = (ev, l', r) \<Longrightarrow> retry_count l' = retry_count l"
  by (auto simp: optional_reads_def split: sum.splits)

lemma poll_block_retry_count:
  "poll_block s l = (ev, l', r) \<Longrightarrow> retry_count l' = retry_count l"
  by (auto simp: poll_block_def split: sum.splits if_splits prod.splits
      dest: optional_reads_retry_count)

lemma async_with_poll_block_retry_count:
  "async_with s l (poll_block s l) = (ev, l', r) \<Longrightarrow> retry_count l' = retry_count l"
  by (auto simp: async_with_def split: option.splits prod.splits dest: poll_block_retry_count)

lemma initial_retry_count: "retry_count initial_locals < RETRY_COUNT"
  by (simp add: initial_locals_def RETRY_COUNT_def)

text \<open>
  The loop has no \<^verbatim>\<open>break\<close> and no \<^verbatim>\<open>return\<close>: it is left only by an exception. The
  statements after it (the merge and \<^verbatim>\<open>return data\<close>) are reached from no state in
  which the loop was entered.
\<close>

lemma poll_loop_no_return:
  "retry_count l < RETRY_COUNT \<Longrightarrow> poll_loop fuel dev i l tr \<noteq> Some (tr', Inr l')"
proof (induction fuel arbitrary: i l tr)
  case 0
  then show ?case by simp
next
  case (Suc fuel)
  obtain ev l1 r where blk: "async_with (dev i) l (poll_block (dev i) l) = (ev, l1, r)"
    by (cases "async_with (dev i) l (poll_block (dev i) l)") auto
  then have rc: "retry_count l1 = retry_count l"
    by (rule async_with_poll_block_retry_count)
  show ?case
  proof (cases r)
    case (Inr u)
    with Suc blk rc show ?thesis by simp
  next
    case (Inl ex)
    show ?thesis
    proof (cases "communication_error ex \<and> \<not> RETRY_COUNT \<le> retry_count l1 + 1")
      case True
      then have "retry_count (l1\<lparr>retry_count := retry_count l1 + 1\<rparr>) < RETRY_COUNT" by simp
      from Suc.IH [OF this] Suc.prems blk Inl True show ?thesis by simp
    next
      case False
      with Suc.prems blk Inl show ?thesis by auto
    qed
  qed
qed

text \<open>A device whose every session ends without an exception keeps the loop running.\<close>

lemma poll_loop_quiet_runs_on:
  assumes quiet: "\<And>j l. \<exists>ev l'. async_with (dev j) l (poll_block (dev j) l) = (ev, l', Inr ())"
    and rc: "retry_count l < RETRY_COUNT"
  shows "poll_loop fuel dev i l tr = None"
  using rc
proof (induction fuel arbitrary: i l tr)
  case 0
  then show ?case by simp
next
  case (Suc fuel)
  from quiet [of i l] obtain ev l' where
    blk: "async_with (dev i) l (poll_block (dev i) l) = (ev, l', Inr ())" by blast
  then have "retry_count l' = retry_count l"
    by (rule async_with_poll_block_retry_count)
  with Suc.prems have "retry_count l' < RETRY_COUNT" by simp
  from Suc.IH [OF this] Suc.prems blk show ?case by simp
qed

lemma healthy_round:
  "async_with healthy_session l (poll_block healthy_session l) =
     ([Enter, GetTemperature, GetBattery, GetHoliday, Exit],
      l\<lparr>retrieved_temperatures := [''eco'' \<mapsto> PNum 16, ''comfort'' \<mapsto> PNum 20],
        battery := PNum 80, holiday := PDict [(''temperature'', PNum 12)]\<rparr>, Inr ())"
  by (simp add: async_with_def poll_block_def optional_reads_def healthy_session_def)

lemma timeout_round:
  "async_with timeout_session l (poll_block timeout_session l) =
     ([Enter, GetTemperature, Exit], l, Inl TimeoutError)"
  by (simp add: async_with_def poll_block_def optional_reads_def healthy_session_def
      timeout_session_def)

lemma battery_malformed_round:
  "async_with battery_malformed_session l (poll_block battery_malformed_session l) =
     ([Enter, GetTemperature, GetBattery, LogWarning InvalidByteValueError, Exit],
      l\<lparr>retrieved_temperatures := [''eco'' \<mapsto> PNum 16, ''comfort'' \<mapsto> PNum 20]\<rparr>, Inr ())"
  by (simp add: async_with_def poll_block_def optional_reads_def healthy_session_def
      battery_malformed_session_def InvalidByteValueError_def isinstance_simps)

lemma holiday_malformed_round:
  "async_with holiday_malformed_session l (poll_block holiday_malformed_session l) =
     ([Enter, GetTemperature, GetBattery, GetHoliday, LogWarning InvalidByteValueError, Exit],
      l\<lparr>retrieved_temperatures := [''eco'' \<mapsto> PNum 16, ''comfort'' \<mapsto> PNum 20],
        battery := PNum 80\<rparr>, Inr ())"
  by (simp add: async_with_def poll_block_def optional_reads_def healthy_session_def
      holiday_malformed_session_def InvalidByteValueError_def isinstance_simps)

lemma poll_loop_fails_then_succeeds:
  "retry_count l + (k - i) < RETRY_COUNT \<Longrightarrow>
   poll_loop fuel (fails_then_succeeds k) i l tr = None"
proof (induction fuel arbitrary: i l tr)
  case 0
  then show ?case by simp
next
  case (Suc fuel)
  show ?case
  proof (cases "i < k")
    case True
    with Suc.prems
    have "retry_count (l\<lparr>retry_count := retry_count l + 1\<rparr>) + (k - (i + 1)) < RETRY_COUNT"
      by simp
    from Suc.IH [OF this] Suc.prems True show ?thesis
      by (simp add: fails_then_succeeds_def timeout_round communication_error_TimeoutError)
  next
    case False
    with Suc.prems
    have "retry_count (l\<lparr>retrieved_temperatures := [''eco'' \<mapsto> PNum 16, ''comfort'' \<mapsto> PNum 20],
        battery := PNum 80, holiday := PDict [(''temperature'', PNum 12)]\<rparr>) + (k - (i + 1))
        < RETRY_COUNT"
      by simp
    from Suc.IH [OF this] Suc.prems False show ?thesis
      by (simp add: fails_then_succeeds_def healthy_round)
  qed
qed

text \<open>
  C1 (retry budget exactness), evaluated on the code. The claim has the poll return a
  Snapshot when fewer than three temperature reads fail before one succeeds. On the code,
  for every \<open>k < 3\<close> and however many rounds the loop is given, the call has not returned:
  after the successful round the loop condition still holds and the next session is opened.
\<close>

theorem retry_budget_success_never_returns:
  "k < 3 \<Longrightarrow> async_update_data_eurotronic fuel conf (fails_then_succeeds k) c = None"
  using poll_loop_fails_then_succeeds [of initial_locals k 0 fuel "[]"]
  by (simp add: async_update_data_eurotronic_def initial_locals_def RETRY_COUNT_def)

theorem retry_budget_success_never_returns_witness:
  "async_update_data_eurotronic 25 [''eco'', ''comfort''] (fails_then_succeeds 0)
     \<lparr>data = Map.empty, failed_update_count = 0\<rparr> = None
   \<and> async_update_data_eurotronic 25 [''eco'', ''comfort''] (fails_then_succeeds 2)
     \<lparr>data = Map.empty, failed_update_count = 0\<rparr> = None"
  using retry_budget_success_never_returns
      [of 0 25 "[''eco'', ''comfort'']" "\<lparr>data = Map.empty, failed_update_count = 0\<rparr>"]
    retry_budget_success_never_returns
      [of 2 25 "[''eco'', ''comfort'']" "\<lparr>data = Map.empty, failed_update_count = 0\<rparr>"]
  by simp

text \<open>
  The other half of the retry budget holds on the code: when the first three sessions fail,
  the call raises \<^verbatim>\<open>UpdateFailed\<close> naming the last cause after exactly three sessions and
  two retry log lines, whatever the device would do afterwards.
\<close>

theorem retry_budget_exhausted:
  "3 \<le> k \<Longrightarrow>
   async_update_data_eurotronic (3 + fuel) conf (fails_then_succeeds k) c =
     Some ([Enter, GetTemperature, Exit, LogInfo TimeoutError,
            Enter, GetTemperature, Exit, LogInfo TimeoutError,
            Enter, GetTemperature, Exit], c, Inl (UpdateFailed TimeoutError))"
  by (simp add: async_update_data_eurotronic_def initial_locals_def RETRY_COUNT_def
      numeral_3_eq_3 fails_then_succeeds_def timeout_round communication_error_TimeoutError)

theorem retry_budget_exhausted_witness:
  "async_update_data_eurotronic 3 [''eco''] (fails_then_succeeds 5)
     \<lparr>data = Map.empty, failed_update_count = 0\<rparr> =
     Some ([Enter, GetTemperature, Exit, LogInfo TimeoutError,
            Enter, GetTemperature, Exit, LogInfo TimeoutError,
            Enter, GetTemperature, Exit], \<lparr>data = Map.empty, failed_update_count = 0\<rparr>,
           Inl (UpdateFailed TimeoutError))"
  using retry_budget_exhausted
      [of 5 0 "[''eco'']" "\<lparr>data = Map.empty, failed_update_count = 0\<rparr>"]
  by simp

text \<open>
  Whatever the device does, \<^verbatim>\<open>_async_update_data\<close> of \<^verbatim>\<open>eurotronic_cometblue\<close> returns no
  data: it raises or it is still in its loop.
\<close>

theorem async_update_data_eurotronic_never_returns_data:
  "async_update_data_eurotronic fuel conf dev c \<noteq> Some (tr, c', Inr d)"
  using poll_loop_no_return [OF initial_retry_count, of fuel dev 0 "[]"]
  by (auto simp: async_update_data_eurotronic_def split: option.splits sum.splits prod.splits)

text \<open>
  C4 (optional-field isolation), evaluated on the code. With the temperatures read and a
  malformed-byte error on the holiday read in every session, each round ends without an
  exception and without a retry, and the call has not returned after any number of rounds.
\<close>

theorem optional_malformed_never_returns:
  "async_update_data_eurotronic fuel conf (\<lambda>i. holiday_malformed_session) c = None"
  using poll_loop_quiet_runs_on [of "\<lambda>i. holiday_malformed_session" initial_locals fuel 0 "[]"]
  by (simp add: async_update_data_eurotronic_def holiday_malformed_round initial_retry_count)

text \<open>
  C10 (battery error skips the holiday read), evaluated on the code. In a session whose
  battery read raises a malformed-byte error the holiday read is not made, a warning is
  logged, the block ends without an exception and the variable \<^verbatim>\<open>holiday\<close> keeps its value;
  but the cycle does not succeed: the call has not returned after any number of rounds.
\<close>

theorem battery_malformed_skips_holiday_and_never_returns:
  "async_with battery_malformed_session l (poll_block battery_malformed_session l) =
     ([Enter, GetTemperature, GetBattery, LogWarning InvalidByteValueError, Exit],
      l\<lparr>retrieved_temperatures := [''eco'' \<mapsto> PNum 16, ''comfort'' \<mapsto> PNum 20]\<rparr>, Inr ())
   \<and> async_update_data_eurotronic fuel conf (\<lambda>i. battery_malformed_session) c = None"
  using poll_loop_quiet_runs_on [of "\<lambda>i. battery_malformed_session" initial_locals fuel 0 "[]"]
  by (simp add: async_update_data_eurotronic_def battery_malformed_round initial_retry_count)

subsection \<open>\<^verbatim>\<open>send_command\<close>\<close>

declare send_command_loop.simps [simp del]

lemma command_round:
  "session_opens s \<Longrightarrow>
   async_with s () (command_block s function payload) =
     ([Enter, Call function payload, Exit], (), command s function payload)"
  by (simp add: session_opens_def async_with_def command_block_def)

lemma send_command_loop_returns:
  assumes "r < RETRY_COUNT" "session_opens (dev r)" "command (dev r) function payload = Inr v"
  shows "send_command_loop dev function payload caller r tr =
           (tr @ [Enter, Call function payload, Exit], Inr v)"
  using assms by (subst send_command_loop.simps) (simp add: command_round)

lemma send_command_loop_retries:
  assumes "r + 1 < RETRY_COUNT" "session_opens (dev r)"
    "command (dev r) function payload = Inl ex" "communication_error ex"
  shows "send_command_loop dev function payload caller r tr =
           send_command_loop dev function payload caller (r + 1)
             (tr @ [Enter, Call function payload, Exit, LogRetryCommand caller ex])"
  using assms by (subst send_command_loop.simps) (simp add: command_round)

lemma send_command_loop_gives_up:
  assumes "r + 1 = RETRY_COUNT" "session_opens (dev r)"
    "command (dev r) function payload = Inl ex" "communication_error ex"
  shows "send_command_loop dev function payload caller r tr =
           (tr @ [Enter, Call function payload, Exit], Inl (HomeAssistantError ex))"
  using assms by (subst send_command_loop.simps) (simp add: command_round)

lemma send_command_loop_invalid:
  assumes "r < RETRY_COUNT" "session_opens (dev r)"
    "command (dev r) function payload = Inl ex" "isinstance ex ''ValueError''"
    "\<not> communication_error ex"
  shows "send_command_loop dev function payload caller r tr =
           (tr @ [Enter, Call function payload, Exit], Inl (ServiceValidationError ex))"
  using assms by (subst send_command_loop.simps) (simp add: command_round)

lemma upt_0_2: "[0..<2] = [0, Suc 0]" by (simp add: upt_rec numeral_2_eq_2)

lemma communication_error_BleakError: "communication_error BleakError"
  by (simp add: communication_error_def BleakError_def isinstance_simps)

lemma not_communication_error_ValueError: "\<not> communication_error ValueError"
  by (simp add: communication_error_def ValueError_def isinstance_simps)

lemma isinstance_ValueError: "isinstance ValueError ''ValueError''"
  by (simp add: ValueError_def isinstance_simps)

lemma session_opens_fixtures:
  "session_opens healthy_session" "session_opens bleak_command_session"
  "session_opens answering_session" "session_opens invalid_payload_session"
  by (simp_all add: session_opens_def healthy_session_def bleak_command_session_def
      answering_session_def invalid_payload_session_def)

lemma command_fixtures:
  "command healthy_session function payload = Inr PNone"
  "command bleak_command_session function payload = Inl BleakError"
  "command answering_session function payload = Inr (PNum 21)"
  "command invalid_payload_session function payload = Inl ValueError"
  by (simp_all add: healthy_session_def bleak_command_session_def
      answering_session_def invalid_payload_session_def)

lemma send_command_cometblue_invalid:
  assumes "session_opens s" "command s function payload = Inl ex" "isinstance ex ''ValueError''"
  shows "send_command_cometblue s function payload caller =
           ([LogDebug, Enter, Call function payload, Exit], Inl (ServiceValidationError ex))"
  using assms
  by (simp add: send_command_cometblue_def async_with_def command_block_cometblue_def
      session_opens_def)

lemma ConfigEntryNotReady_class:
  "\<not> communication_error ConfigEntryNotReady"
  "\<not> isinstance ConfigEntryNotReady ''ValueError''"
  "\<not> isinstance ConfigEntryNotReady ''BleakError''"
  "\<not> isinstance ConfigEntryNotReady ''TimeoutError''"
  "\<not> isinstance ConfigEntryNotReady ''InvalidByteValueError''"
  "isinstance ConfigEntryNotReady ''Exception''"
  by (simp_all add: communication_error_def ConfigEntryNotReady_def isinstance_simps)

lemma send_command_cometblue_error:
  assumes "session_opens s" "command s function payload = Inl e"
  shows "send_command_cometblue s function payload caller =
     ([LogDebug, Enter, Call function payload, Exit],
      Inl (if isinstance e ''ValueError'' then ServiceValidationError e
           else if isinstance e ''BleakError'' \<or> isinstance e ''TimeoutError''
           then HomeAssistantError e
           else Propagated e))"
  using assms
  by (simp add: send_command_cometblue_def async_with_def command_block_cometblue_def
      session_opens_def)

text \<open>
  C6 (dispatch communication retry), as amended. For \<^verbatim>\<open>send_command\<close> of
  \<^verbatim>\<open>eurotronic_cometblue\<close>: let every session be entered and left without an exception with
  the device connected (\<open>session_opens\<close>), let the device operation raise a transport,
  timeout or malformed-byte error in each of the first \<open>k \<le> 3\<close> sessions, and return \<open>v\<close>
  in the next one when \<open>k < 3\<close>. Then every attempt opens a session of its own, each of the
  first \<open>min k 2\<close> failures is followed by one informational log line naming the caller and
  the error, and the call returns \<open>v\<close> when \<open>k < 3\<close> and otherwise raises
  \<^verbatim>\<open>HomeAssistantError\<close> naming the third, last error, after exactly three attempts.
  For \<^verbatim>\<open>send_command\<close> of \<^verbatim>\<open>cometblue\<close>: in such a session an error \<open>e\<close> of the operation
  ends the call after that one attempt, with \<^verbatim>\<open>ServiceValidationError\<close> naming \<open>e\<close> when
  \<open>e\<close> is a \<^verbatim>\<open>ValueError\<close> (the library's malformed-byte error is one), with
  \<^verbatim>\<open>HomeAssistantError\<close> naming \<open>e\<close> when \<open>e\<close> is otherwise a \<^verbatim>\<open>BleakError\<close> or a
  \<^verbatim>\<open>TimeoutError\<close>, and with \<open>e\<close> itself otherwise.
\<close>

theorem send_command_retries:
  assumes k: "k \<le> 3"
    and fails: "\<And>j. j < k \<Longrightarrow> session_opens (dev j) \<and> command (dev j) function payload = Inl (ex j)
                  \<and> communication_error (ex j)"
    and succeeds: "k < 3 \<Longrightarrow> session_opens (dev k) \<and> command (dev k) function payload = Inr v"
  shows "send_command_eurotronic dev function payload caller =
     (LogDebug #
        concat (map (\<lambda>j. [Enter, Call function payload, Exit, LogRetryCommand caller (ex j)])
                 [0..<min k 2])
        @ [Enter, Call function payload, Exit],
      if k < 3 then Inr v else Inl (HomeAssistantError (ex 2)))
   \<and> (session_opens s \<and> command s function payload = Inl e \<longrightarrow>
      send_command_cometblue s function payload caller =
        ([LogDebug, Enter, Call function payload, Exit],
         Inl (if isinstance e ''ValueError'' then ServiceValidationError e
              else if isinstance e ''BleakError'' \<or> isinstance e ''TimeoutError''
              then HomeAssistantError e
              else Propagated e)))"
proof -
  from k consider "k = 0" | "k = 1" | "k = 2" | "k = 3" by linarith
  then have "send_command_eurotronic dev function payload caller =
     (LogDebug #
        concat (map (\<lambda>j. [Enter, Call function payload, Exit, LogRetryCommand caller (ex j)])
                 [0..<min k 2])
        @ [Enter, Call function payload, Exit],
      if k < 3 then Inr v else Inl (HomeAssistantError (ex 2)))"
  proof cases
    case 1
    with succeeds show ?thesis
      by (simp add: send_command_eurotronic_def send_command_loop_returns RETRY_COUNT_def)
  next
    case 2
    with succeeds fails [of 0] show ?thesis
      by (simp add: send_command_eurotronic_def send_command_loop_returns
          send_command_loop_retries RETRY_COUNT_def)
  next
    case 3
    with succeeds fails [of 0] fails [of 1] show ?thesis
      by (simp add: send_command_eurotronic_def send_command_loop_returns
          send_command_loop_retries RETRY_COUNT_def upt_0_2 numeral_2_eq_2)
  next
    case 4
    with fails [of 0] fails [of 1] fails [of 2] show ?thesis
      by (simp add: send_command_eurotronic_def send_command_loop_gives_up
          send_command_loop_retries RETRY_COUNT_def upt_0_2 numeral_2_eq_2)
  qed
  moreover have "session_opens s \<and> command s function payload = Inl e \<longrightarrow>
      send_command_cometblue s function payload caller =
        ([LogDebug, Enter, Call function payload, Exit],
         Inl (if isinstance e ''ValueError'' then ServiceValidationError e
              else if isinstance e ''BleakError'' \<or> isinstance e ''TimeoutError''
              then HomeAssistantError e
              else Propagated e))"
    using send_command_cometblue_error [of s "function" payload e caller] by blast
  ultimately show ?thesis by (rule conjI)
qed

theorem send_command_retries_witness:
  "send_command_eurotronic (\<lambda>i. if i < 2 then bleak_command_session else answering_session)
     ''set_temperature'' [(''eco'', PNum 17)] ''climate.bath'' =
     ([LogDebug,
       Enter, Call ''set_temperature'' [(''eco'', PNum 17)], Exit,
       LogRetryCommand ''climate.bath'' BleakError,
       Enter, Call ''set_temperature'' [(''eco'', PNum 17)], Exit,
       LogRetryCommand ''climate.bath'' BleakError,
       Enter, Call ''set_temperature'' [(''eco'', PNum 17)], Exit], Inr (PNum 21))
   \<and> send_command_eurotronic (\<lambda>i. bleak_command_session)
     ''set_temperature'' [(''eco'', PNum 17)] ''climate.bath'' =
     ([LogDebug,
       Enter, Call ''set_temperature'' [(''eco'', PNum 17)], Exit,
       LogRetryCommand ''climate.bath'' BleakError,
       Enter, Call ''set_temperature'' [(''eco'', PNum 17)], Exit,
       LogRetryCommand ''climate.bath'' BleakError,
       Enter, Call ''set_temperature'' [(''eco'', PNum 17)], Exit],
      Inl (HomeAssistantError BleakError))
   \<and> send_command_cometblue (healthy_session\<lparr>command := \<lambda>function payload. Inl TimeoutError\<rparr>)
     ''set_temperature'' [(''eco'', PNum 17)] ''climate.bath'' =
     ([LogDebug, Enter, Call ''set_temperature'' [(''eco'', PNum 17)], Exit],
      Inl (HomeAssistantError TimeoutError))
   \<and> send_command_cometblue
     (healthy_session\<lparr>command := \<lambda>function payload. Inl InvalidByteValueError\<rparr>)
     ''set_temperature'' [(''eco'', PNum 17)] ''climate.bath'' =
     ([LogDebug, Enter, Call ''set_temperature'' [(''eco'', PNum 17)], Exit],
      Inl (ServiceValidationError InvalidByteValueError))"
proof -
  let ?p = "[(''eco'', PNum 17)]"
  let ?st = "healthy_session\<lparr>command := \<lambda>function payload. Inl TimeoutError\<rparr>"
  let ?sm = "healthy_session\<lparr>command := \<lambda>function payload. Inl InvalidByteValueError\<rparr>"
  have a: "\<And>j::nat. j < 2 \<Longrightarrow>
      session_opens ((\<lambda>i. if i < 2 then bleak_command_session else answering_session) j)
      \<and> command ((\<lambda>i. if i < 2 then bleak_command_session else answering_session) j)
            ''set_temperature'' ?p = Inl ((\<lambda>j. BleakError) j)
      \<and> communication_error ((\<lambda>j. BleakError) j)"
    by (simp add: session_opens_fixtures communication_error_BleakError command_fixtures)
  have b: "(2::nat) < 3 \<Longrightarrow>
      session_opens ((\<lambda>i::nat. if i < 2 then bleak_command_session else answering_session) 2)
      \<and> command ((\<lambda>i::nat. if i < 2 then bleak_command_session else answering_session) 2)
            ''set_temperature'' ?p = Inr (PNum 21)"
    by (simp add: session_opens_fixtures command_fixtures)
  have c: "\<And>j::nat. j < 3 \<Longrightarrow>
      session_opens ((\<lambda>i. bleak_command_session) j)
      \<and> command ((\<lambda>i. bleak_command_session) j)
            ''set_temperature'' ?p = Inl ((\<lambda>j. BleakError) j)
      \<and> communication_error ((\<lambda>j. BleakError) j)"
    by (simp add: session_opens_fixtures communication_error_BleakError command_fixtures)
  have t: "session_opens ?st" "command ?st ''set_temperature'' ?p = Inl TimeoutError"
    and m: "session_opens ?sm" "command ?sm ''set_temperature'' ?p = Inl InvalidByteValueError"
    by (simp_all add: session_opens_def healthy_session_def)
  have cls: "\<not> isinstance TimeoutError ''ValueError''" "isinstance TimeoutError ''TimeoutError''"
    "isinstance InvalidByteValueError ''ValueError''"
    by (simp_all add: TimeoutError_def InvalidByteValueError_def isinstance_simps)
  show ?thesis
    using send_command_retries
        [of 2 "\<lambda>i. if i < 2 then bleak_command_session else answering_session"
          "''set_temperature''" ?p "\<lambda>j. BleakError" "PNum 21" "''climate.bath''"
          ?st TimeoutError, OF _ a b]
      send_command_retries
        [of 3 "\<lambda>i. bleak_command_session"
          "''set_temperature''" ?p "\<lambda>j. BleakError" "PNum 21" "''climate.bath''"
          ?sm InvalidByteValueError, OF _ c]
    by (simp add: upt_0_2 t m cls)
qed

text \<open>
  The claim as stated, for every \<^verbatim>\<open>send_command\<close>, fails on package \<^verbatim>\<open>cometblue\<close>: its
  \<^verbatim>\<open>send_command\<close> has no loop, and one transport error ends the call after one attempt.
\<close>

theorem send_command_cometblue_no_retry:
  "send_command_cometblue bleak_command_session
     ''set_temperature'' [(''eco'', PNum 17)] ''climate.bath'' =
     ([LogDebug, Enter, Call ''set_temperature'' [(''eco'', PNum 17)], Exit],
      Inl (HomeAssistantError BleakError))"
  by (simp add: send_command_cometblue_def async_with_def command_block_cometblue_def
      bleak_command_session_def healthy_session_def BleakError_def isinstance_simps)

text \<open>
  C7 (command validation short-circuit). When the device operation rejects the payload
  with a \<^verbatim>\<open>ValueError\<close>, the call raises \<^verbatim>\<open>ServiceValidationError\<close> naming it after that
  one attempt of the operation: in \<^verbatim>\<open>eurotronic_cometblue\<close> whatever number \<open>r < 3\<close> of
  retries has been used (no log line, no further session), and in \<^verbatim>\<open>cometblue\<close>. Neither
  method reads or assigns \<^verbatim>\<open>failed_update_count\<close>: the coordinator is no part of their
  state.
\<close>

theorem invalid_payload_short_circuit:
  assumes "r < RETRY_COUNT" "session_opens (dev r)"
    "command (dev r) function payload = Inl ex"
    "isinstance ex ''ValueError''" "\<not> communication_error ex"
  shows "send_command_loop dev function payload caller r tr =
           (tr @ [Enter, Call function payload, Exit], Inl (ServiceValidationError ex))
       \<and> (r = 0 \<longrightarrow> send_command_eurotronic dev function payload caller =
           ([LogDebug, Enter, Call function payload, Exit], Inl (ServiceValidationError ex)))
       \<and> send_command_cometblue (dev r) function payload caller =
           ([LogDebug, Enter, Call function payload, Exit], Inl (ServiceValidationError ex))"
  using assms
  by (auto simp: send_command_loop_invalid send_command_cometblue_invalid
      send_command_eurotronic_def)

theorem invalid_payload_short_circuit_witness:
  "send_command_eurotronic (\<lambda>i. invalid_payload_session)
     ''set_temperature'' [(''eco'', PNum (999 / 10))] ''climate.bath'' =
     ([LogDebug, Enter, Call ''set_temperature'' [(''eco'', PNum (999 / 10))], Exit],
      Inl (ServiceValidationError ValueError))
   \<and> send_command_cometblue invalid_payload_session
     ''set_temperature'' [(''eco'', PNum (999 / 10))] ''climate.bath'' =
     ([LogDebug, Enter, Call ''set_temperature'' [(''eco'', PNum (999 / 10))], Exit],
      Inl (ServiceValidationError ValueError))"
  using invalid_payload_short_circuit [of 0 "\<lambda>i. invalid_payload_session"
      "''set_temperature''" "[(''eco'', PNum (999 / 10))]" ValueError "''climate.bath''" "[LogDebug]"]
  by (simp add: RETRY_COUNT_def session_opens_fixtures command_fixtures
      isinstance_ValueError not_communication_error_ValueError)

text \<open>
  C9 (dispatch returns its result), evaluated on the code. \<^verbatim>\<open>send_command\<close> of package
  \<^verbatim>\<open>cometblue\<close> assigns the operation's result to a local variable and ends without a
  \<^verbatim>\<open>return\<close>: the caller gets \<^verbatim>\<open>None\<close> where the device answered 21. The same call on
  \<^verbatim>\<open>eurotronic_cometblue\<close> returns the answer.
\<close>

theorem send_command_cometblue_discards_result:
  "send_command_cometblue answering_session ''get_temperature'' [] ''climate.bath'' =
     ([LogDebug, Enter, Call ''get_temperature'' [], Exit], Inr PNone)
   \<and> send_command_eurotronic (\<lambda>i. answering_session) ''get_temperature'' [] ''climate.bath'' =
     ([LogDebug, Enter, Call ''get_temperature'' [], Exit], Inr (PNum 21))"
  by (simp add: send_command_cometblue_def async_with_def command_block_cometblue_def
      answering_session_def healthy_session_def send_command_eurotronic_def
      send_command_loop_returns session_opens_def RETRY_COUNT_def)

text \<open>
  In \<^verbatim>\<open>eurotronic_cometblue\<close> a call whose first session succeeds returns the operation's
  result; in \<^verbatim>\<open>cometblue\<close> a call that returns returns \<^verbatim>\<open>None\<close>.
\<close>

theorem send_command_eurotronic_returns_result:
  assumes "session_opens (dev 0)" "command (dev 0) function payload = Inr v"
  shows "send_command_eurotronic dev function payload caller =
           ([LogDebug, Enter, Call function payload, Exit], Inr v)"
  using assms
  by (simp add: send_command_eurotronic_def send_command_loop_returns RETRY_COUNT_def)

theorem send_command_eurotronic_returns_result_witness:
  "send_command_eurotronic (\<lambda>i. answering_session) ''get_temperature'' [] ''climate.bath'' =
     ([LogDebug, Enter, Call ''get_temperature'' [], Exit], Inr (PNum 21))"
  using send_command_eurotronic_returns_result [of "\<lambda>i. answering_session"
      "''get_temperature''" "[]" "PNum 21" "''climate.bath''"]
  by (simp add: session_opens_fixtures command_fixtures)

theorem send_command_cometblue_returns_None:
  "send_command_cometblue s function payload caller = (tr, Inr v) \<Longrightarrow> v = PNone"
  by (auto simp: send_command_cometblue_def split: prod.splits sum.splits if_splits)

text \<open>
  C8 (device not ready), as amended. When the session is acquired and reports not
  connected, \<^verbatim>\<open>send_command\<close> of both packages fails at once with \<^verbatim>\<open>ConfigEntryNotReady\<close>
  itself, and \<^verbatim>\<open>_async_update_data\<close> of both packages fails at once, without a retry, with
  \<^verbatim>\<open>UpdateFailed\<close> whose cause is \<^verbatim>\<open>ConfigEntryNotReady\<close>: the handler for
  \<^verbatim>\<open>Exception\<close> catches it. Package \<^verbatim>\<open>cometblue\<close> also counts the failure.
\<close>

theorem device_not_ready:
  assumes "aenter s = None" "\<not> connected s" "aexit s = None" "dev 0 = s"
  shows "send_command_eurotronic dev function payload caller =
           ([LogDebug, Enter, Exit], Inl (Propagated ConfigEntryNotReady))
       \<and> send_command_cometblue s function payload caller =
           ([LogDebug, Enter, Exit], Inl (Propagated ConfigEntryNotReady))
       \<and> async_update_data_eurotronic (Suc fuel) conf dev c =
           Some ([Enter, Exit], c, Inl (UpdateFailed ConfigEntryNotReady))
       \<and> async_update_data_cometblue conf s c =
           ([Enter, Exit], c\<lparr>failed_update_count := failed_update_count c + 1\<rparr>,
            Inl (UpdateFailed ConfigEntryNotReady))"
proof -
  have "send_command_eurotronic dev function payload caller =
           ([LogDebug, Enter, Exit], Inl (Propagated ConfigEntryNotReady))"
    using assms unfolding send_command_eurotronic_def
    by (subst send_command_loop.simps)
      (simp add: RETRY_COUNT_def async_with_def command_block_def ConfigEntryNotReady_class)
  moreover have "send_command_cometblue s function payload caller =
           ([LogDebug, Enter, Exit], Inl (Propagated ConfigEntryNotReady))"
    using assms
    by (simp add: send_command_cometblue_def async_with_def command_block_cometblue_def
        ConfigEntryNotReady_class)
  moreover have "async_update_data_eurotronic (Suc fuel) conf dev c =
           Some ([Enter, Exit], c, Inl (UpdateFailed ConfigEntryNotReady))"
    using assms
    by (simp add: async_update_data_eurotronic_def initial_retry_count async_with_def
        poll_block_def ConfigEntryNotReady_class)
  moreover have "async_update_data_cometblue conf s c =
           ([Enter, Exit], c\<lparr>failed_update_count := failed_update_count c + 1\<rparr>,
            Inl (UpdateFailed ConfigEntryNotReady))"
    using assms
    by (simp add: async_update_data_cometblue_def async_with_def update_block_cometblue_def
        ConfigEntryNotReady_class)
  ultimately show ?thesis by simp
qed

theorem device_not_ready_witness:
  "send_command_eurotronic (\<lambda>i. disconnected_session) ''set_temperature'' [] ''climate.bath'' =
     ([LogDebug, Enter, Exit], Inl (Propagated ConfigEntryNotReady))
   \<and> async_update_data_cometblue [''eco''] disconnected_session stored_coordinator =
     ([Enter, Exit], stored_coordinator\<lparr>failed_update_count := 4\<rparr>,
      Inl (UpdateFailed ConfigEntryNotReady))"
  using device_not_ready [of disconnected_session "\<lambda>i. disconnected_session"
      "''set_temperature''" "[]" "''climate.bath''" 0 "[''eco'']" stored_coordinator]
  by (simp add: disconnected_session_def healthy_session_def stored_coordinator_def)

text \<open>
  The claim as stated fails for the poll: what reaches the scheduler is
  \<^verbatim>\<open>UpdateFailed\<close>, not \<^verbatim>\<open>ConfigEntryNotReady\<close>.
\<close>

theorem poll_not_ready_is_update_failed:
  "async_update_data_eurotronic 1 [''eco''] (\<lambda>i. disconnected_session) stored_coordinator =
     Some ([Enter, Exit], stored_coordinator, Inl (UpdateFailed ConfigEntryNotReady))
   \<and> async_update_data_eurotronic 1 [''eco''] (\<lambda>i. disconnected_session) stored_coordinator \<noteq>
     Some ([Enter, Exit], stored_coordinator, Inl (Propagated ConfigEntryNotReady))"
  by (simp add: async_update_data_eurotronic_def initial_retry_count async_with_def
      poll_block_def ConfigEntryNotReady_class disconnected_session_def healthy_session_def)

subsection \<open>The failure counter\<close>












subsection \<open>The merge\<close>












end
